theory Spec2Isabelle
  imports Complex_Main "HOL-Library.Sublist"
begin

section \<open>Exceptions\<close>

text \<open>
  The exceptions the two modules raise, catch or let through. \<open>PexDomainError\<close> and
  \<open>PexRuntimeError\<close> are the two classes of \<open>lsst.pex.exceptions\<close> that
  \<open>runDataRef\<close> catches; \<open>OtherException\<close> stands for every class no handler of
  the source names. \<open>AttributeError\<close> is what Python raises for a method call on
  \<open>None\<close>, \<open>RuntimeError\<close> is the builtin that \<open>doProcessCcd\<close> and
  \<open>doDiffIm\<close> raise, \<open>OSError\<close> is what \<open>os.mkdir\<close> and \<open>os.chdir\<close>
  raise, \<open>IntegrityError\<close> is \<open>sqlite3.IntegrityError\<close>, and
  \<open>IndexError\<close> is a list index out of range.
\<close>

datatype exn =
    PexDomainError
  | PexRuntimeError
  | AttributeError
  | RuntimeError
  | OSError
  | IntegrityError
  | IndexError
  | OtherException

section \<open>selectImages.py: MaxPsfWcsSelectImagesTask\<close>

subsection \<open>Data\<close>

text \<open>
  \<open>MaxPsfWcsSelectImageConfig\<close>: the two fields the subclass adds. Python floats are
  modelled as reals.
\<close>

record MaxPsfWcsSelectImageConfig =
  maxPsfFwhm :: real
  minPsfFwhm :: real

definition default_config :: MaxPsfWcsSelectImageConfig where
  "default_config = \<lparr>maxPsfFwhm = 5, minPsfFwhm = 0\<rparr>"

text \<open>
  \<open>SelectStruct\<close>: one entry of \<open>selectDataList\<close>, with the three attributes
  \<open>runDataRef\<close> reads.
\<close>

record ('ref, 'wcs) SelectStruct =
  dataRef :: 'ref
  wcs :: 'wcs
  dims :: "int \<times> int"

text \<open>\<open>BaseExposureInfo(dataId, coordList)\<close>.\<close>

record ('id, 'coord) BaseExposureInfo =
  info_dataId :: 'id
  info_coordList :: "'coord list"

text \<open>The \<open>pipeBase.Struct\<close> that \<open>runDataRef\<close> returns.\<close>

record ('ref, 'id, 'coord) Struct =
  dataRefList :: "'ref list option"
  exposureInfoList :: "('id, 'coord) BaseExposureInfo list"

text \<open>
  The calls into the external framework, as the source makes them:
  \<^item> \<open>dataId_of\<close>: \<open>dataRef.dataId\<close>;
  \<^item> \<open>getDeterminantRadius\<close>:
    \<open>dataRef.get('calexp', immediate=True).getPsf().computeShape().getDeterminantRadius()\<close>,
    the image data under the data reference;
  \<^item> \<open>getCorners\<close>: \<open>afwGeom.Box2D(Point2D(0, 0), Extent2D(nx, ny)).getCorners()\<close>;
  \<^item> \<open>pixelToSky\<close>: \<open>imageWcs.pixelToSky(pix)\<close>, which may raise;
  \<^item> \<open>getVector\<close>: \<open>coord.getVector()\<close>;
  \<^item> \<open>convexHull\<close>: \<open>lsst.geom.convexHull\<close>, which returns \<open>None\<close> when the
    points have no hull;
  \<^item> \<open>intersects\<close>: \<open>patchPoly.intersects(imagePoly)\<close>.
\<close>

record ('ref, 'id, 'wcs, 'pix, 'coord, 'vec, 'poly) framework =
  dataId_of :: "'ref \<Rightarrow> 'id"
  getDeterminantRadius :: "'ref \<Rightarrow> real"
  getCorners :: "int \<times> int \<Rightarrow> 'pix list"
  pixelToSky :: "'wcs \<Rightarrow> 'pix \<Rightarrow> exn + 'coord"
  getVector :: "'coord \<Rightarrow> 'vec"
  convexHull :: "'vec list \<Rightarrow> 'poly option"
  intersects :: "'poly \<Rightarrow> 'poly \<Rightarrow> bool"

text \<open>What \<open>self.log\<close> receives, one constructor per logging call of \<open>runDataRef\<close>.\<close>

datatype 'id select_log =
    DebugWcsError 'id exn
  | DebugNoPolygon 'id
  | InfoSelected 'id real

subsection \<open>runDataRef\<close>

text \<open>
  \<open>[imageWcs.pixelToSky(pix) for pix in imageBox.getCorners()]\<close>: the first corner that
  raises ends the comprehension.
\<close>

fun imageCorners_of :: "('pix \<Rightarrow> exn + 'coord) \<Rightarrow> 'pix list \<Rightarrow> exn + 'coord list" where
  "imageCorners_of f [] = Inr []"
| "imageCorners_of f (pix # pixs) =
     (case f pix of
        Inl e \<Rightarrow> Inl e
      | Inr c \<Rightarrow> (case imageCorners_of f pixs of Inl e \<Rightarrow> Inl e | Inr cs \<Rightarrow> Inr (c # cs)))"

text \<open>\<open>np.sqrt(8.*np.log(2.))\<close>: the factor from sigma to FWHM.\<close>

definition sigma_to_fwhm :: real where
  "sigma_to_fwhm = sqrt (8 * ln 2)"

text \<open>
  The first loop, \<open>for data in selectDataList\<close>, over the three lists it appends to and
  the log. \<open>patchPoly\<close> is \<open>None\<close> when the patch has no hull; the source calls
  \<open>patchPoly.intersects\<close> without a test, which then raises \<open>AttributeError\<close>.
\<close>

fun select_loop ::
  "('ref, 'id, 'wcs, 'pix, 'coord, 'vec, 'poly) framework \<Rightarrow> 'poly option \<Rightarrow>
   ('ref, 'wcs) SelectStruct list \<Rightarrow>
   real list \<times> 'ref list \<times> ('id, 'coord) BaseExposureInfo list \<Rightarrow> 'id select_log list \<Rightarrow>
   (exn + real list \<times> 'ref list \<times> ('id, 'coord) BaseExposureInfo list) \<times> 'id select_log list"
where
  "select_loop fw patchPoly [] acc lg = (Inr acc, lg)"
| "select_loop fw patchPoly (data # rest) (psf_sizes, refs, infos) lg =
     (let ref = dataRef data;
          imageWcs = wcs data;
          psf_size = getDeterminantRadius fw ref
      in case imageCorners_of (pixelToSky fw imageWcs) (getCorners fw (dims data)) of
           Inl e \<Rightarrow>
             if e = PexDomainError \<or> e = PexRuntimeError
             then select_loop fw patchPoly rest (psf_sizes, refs, infos)
                    (lg @ [DebugWcsError (dataId_of fw ref) e])
             else (Inl e, lg)
         | Inr imageCorners \<Rightarrow>
             (case convexHull fw (map (getVector fw) imageCorners) of
                None \<Rightarrow>
                  select_loop fw patchPoly rest (psf_sizes, refs, infos)
                    (lg @ [DebugNoPolygon (dataId_of fw ref)])
              | Some imagePoly \<Rightarrow>
                  (case patchPoly of
                     None \<Rightarrow> (Inl AttributeError, lg)
                   | Some pp \<Rightarrow>
                       if intersects fw pp imagePoly
                       then select_loop fw patchPoly rest
                              (psf_sizes @ [psf_size], refs @ [ref],
                               infos @ [\<lparr>info_dataId = dataId_of fw ref,
                                         info_coordList = imageCorners\<rparr>]) lg
                       else select_loop fw patchPoly rest (psf_sizes, refs, infos) lg)))"

text \<open>
  The second loop, over \<open>zip(psf_sizes, dataRefList, exposureInfoList)\<close>: both bounds
  are strict.
\<close>

fun filter_loop ::
  "('ref, 'id, 'wcs, 'pix, 'coord, 'vec, 'poly) framework \<Rightarrow> MaxPsfWcsSelectImageConfig \<Rightarrow>
   (real \<times> 'ref \<times> ('id, 'coord) BaseExposureInfo) list \<Rightarrow>
   'ref list \<times> ('id, 'coord) BaseExposureInfo list \<Rightarrow> 'id select_log list \<Rightarrow>
   ('ref list \<times> ('id, 'coord) BaseExposureInfo list) \<times> 'id select_log list"
where
  "filter_loop fw config [] acc lg = (acc, lg)"
| "filter_loop fw config ((size_sigma, ref, expInfo) # rest) (filteredRefs, filteredInfos) lg =
     (let size_fwhm = size_sigma * sigma_to_fwhm
      in if size_fwhm < maxPsfFwhm config \<and> size_fwhm > minPsfFwhm config
         then filter_loop fw config rest (filteredRefs @ [ref], filteredInfos @ [expInfo])
                (lg @ [InfoSelected (dataId_of fw ref) size_fwhm])
         else filter_loop fw config rest (filteredRefs, filteredInfos) lg)"

definition runDataRef ::
  "('ref, 'id, 'wcs, 'pix, 'coord, 'vec, 'poly) framework \<Rightarrow> MaxPsfWcsSelectImageConfig \<Rightarrow>
   'coord list \<Rightarrow> ('ref, 'wcs) SelectStruct list \<Rightarrow> bool \<Rightarrow> 'id select_log list \<Rightarrow>
   (exn + ('ref, 'id, 'coord) Struct) \<times> 'id select_log list"
where
  "runDataRef fw config coordList selectDataList makeDataRefList lg =
     (let patchVertices = map (getVector fw) coordList;
          patchPoly = convexHull fw patchVertices
      in case select_loop fw patchPoly selectDataList ([], [], []) lg of
           (Inl e, lg') \<Rightarrow> (Inl e, lg')
         | (Inr (psf_sizes, refs, infos), lg') \<Rightarrow>
             (case filter_loop fw config (zip psf_sizes (zip refs infos)) ([], []) lg' of
                ((filteredRefs, filteredInfos), lg'') \<Rightarrow>
                  (Inr \<lparr>dataRefList = (if makeDataRefList then Some filteredRefs else None),
                        exposureInfoList = filteredInfos\<rparr>, lg'')))"

section \<open>ap_pipe.py: the pipeline driver\<close>

subsection \<open>The world the driver runs in\<close>

text \<open>
  The file system holds a node at each absolute path, a path being its list of
  components; the root is always a directory. The process has a working directory, and
  the loggers of \<open>lsst.log\<close> write to one log. A logging call is recorded as made
  (its level, its format string and the exception passed along, if any); how
  \<open>lsst.log\<close> renders it is outside this repository.
\<close>

datatype node = File | Dir

datatype ap_log =
    LogInfo string
  | LogWarn string
  | LogError string "exn option"

record world =
  fs :: "string list \<rightharpoonup> node"
  cwd :: "string list"
  ap_log :: "ap_log list"

type_synonym 'a io = "world \<Rightarrow> (exn + 'a) \<times> world"

definition return_io :: "'a \<Rightarrow> 'a io" where
  "return_io x w = (Inr x, w)"

definition raise_io :: "exn \<Rightarrow> 'a io" where
  "raise_io e w = (Inl e, w)"

definition bind_io :: "'a io \<Rightarrow> ('a \<Rightarrow> 'b io) \<Rightarrow> 'b io" where
  "bind_io m f w = (case m w of (Inl e, w') \<Rightarrow> (Inl e, w') | (Inr x, w') \<Rightarrow> f x w')"

text \<open>\<open>try: body finally: fin\<close>: \<open>fin\<close> runs either way, and its exception wins.\<close>

definition finally_io :: "'a io \<Rightarrow> unit io \<Rightarrow> 'a io" where
  "finally_io body fin w =
     (case body w of
        (r, w') \<Rightarrow> (case fin w' of (Inl e, w'') \<Rightarrow> (Inl e, w'') | (Inr u, w'') \<Rightarrow> (r, w'')))"

definition log_io :: "ap_log \<Rightarrow> unit io" where
  "log_io entry w = (Inr (), w\<lparr>ap_log := ap_log w @ [entry]\<rparr>)"

subsection \<open>Paths\<close>

text \<open>The pieces of a string between the characters that satisfy \<open>sep\<close>.\<close>

fun split_on :: "(char \<Rightarrow> bool) \<Rightarrow> string \<Rightarrow> string list" where
  "split_on sep [] = [[]]"
| "split_on sep (c # cs) =
     (if sep c then [] # split_on sep cs
      else (case split_on sep cs of
              [] \<Rightarrow> [[c]]
            | piece # pieces \<Rightarrow> (c # piece) # pieces))"

text \<open>\<open>posixpath.join\<close> of two components.\<close>

definition os_path_join :: "string \<Rightarrow> string \<Rightarrow> string" where
  "os_path_join a b =
     (if b \<noteq> [] \<and> hd b = CHR ''/'' then b
      else if a = [] \<or> last a = CHR ''/'' then a @ b
      else a @ ''/'' @ b)"

text \<open>\<open>posixpath.basename\<close>: what follows the last slash.\<close>

definition os_path_basename :: "string \<Rightarrow> string" where
  "os_path_basename p = last (split_on (\<lambda>c. c = CHR ''/'') p)"

text \<open>
  The absolute path a path names in working directory \<open>d\<close>: empty components and
  \<open>.\<close> are skipped, \<open>..\<close> steps up (symbolic links are not modelled).
\<close>

definition resolve_step :: "string list \<Rightarrow> string \<Rightarrow> string list" where
  "resolve_step acc part =
     (if part = [] \<or> part = ''.'' then acc
      else if part = ''..'' then butlast acc
      else acc @ [part])"

definition resolve :: "string list \<Rightarrow> string \<Rightarrow> string list" where
  "resolve d p =
     foldl resolve_step (if p \<noteq> [] \<and> hd p = CHR ''/'' then [] else d)
       (split_on (\<lambda>c. c = CHR ''/'') p)"

definition node_at :: "world \<Rightarrow> string list \<Rightarrow> node option" where
  "node_at w q = (if q = [] then Some Dir else fs w q)"

definition os_path_exists :: "world \<Rightarrow> string \<Rightarrow> bool" where
  "os_path_exists w p = (p \<noteq> [] \<and> node_at w (resolve (cwd w) p) \<noteq> None)"

definition os_path_isdir :: "world \<Rightarrow> string \<Rightarrow> bool" where
  "os_path_isdir w p = (p \<noteq> [] \<and> node_at w (resolve (cwd w) p) = Some Dir)"

fun join_slash :: "string list \<Rightarrow> string" where
  "join_slash [] = []"
| "join_slash (part # parts) = ''/'' @ part @ join_slash parts"

definition os_path_abspath :: "world \<Rightarrow> string \<Rightarrow> string" where
  "os_path_abspath w p =
     (let q = resolve (cwd w) p in if q = [] then ''/'' else join_slash q)"

definition exists_io :: "string \<Rightarrow> bool io" where
  "exists_io p w = (Inr (os_path_exists w p), w)"

definition isdir_io :: "string \<Rightarrow> bool io" where
  "isdir_io p w = (Inr (os_path_isdir w p), w)"

text \<open>
  \<open>os.mkdir\<close>: \<open>OSError\<close> when the path exists already or its parent is not a
  directory.
\<close>

definition os_mkdir :: "string \<Rightarrow> unit io" where
  "os_mkdir p w =
     (let q = resolve (cwd w) p
      in if p = [] \<or> node_at w q \<noteq> None \<or> node_at w (butlast q) \<noteq> Some Dir
         then (Inl OSError, w)
         else (Inr (), w\<lparr>fs := (fs w)(q \<mapsto> Dir)\<rparr>))"

definition os_chdir :: "string \<Rightarrow> unit io" where
  "os_chdir p w =
     (if os_path_isdir w p then (Inr (), w\<lparr>cwd := resolve (cwd w) p\<rparr>)
      else (Inl OSError, w))"

text \<open>\<open>with open(p, 'w') as f: print(..., file=f)\<close>: the file is there afterwards.\<close>

definition write_file :: "string \<Rightarrow> unit io" where
  "write_file p w =
     (let q = resolve (cwd w) p
      in if p = [] \<or> node_at w q = Some Dir \<or> node_at w (butlast q) \<noteq> Some Dir
         then (Inl OSError, w)
         else (Inr (), w\<lparr>fs := (fs w)(q \<mapsto> File)\<rparr>))"

subsection \<open>The framework's tasks and the library calls\<close>

text \<open>
  What the driver calls and does not define:
  \<^item> \<open>glob\<close>: \<open>glob.glob\<close>;
  \<^item> \<open>tar_extractall\<close>: \<open>tarfile.open(src, 'r').extractall(dst)\<close>;
  \<^item> \<open>ingest_parse_args\<close>, \<open>ingest_run\<close>: \<open>DecamIngestArgumentParser.parse_args\<close>
    and \<open>DecamIngestTask.run\<close>, the latter giving what \<open>getFullMetadata()\<close> reads
    off the task afterwards;
  \<^item> \<open>calibs_parse_args\<close>, \<open>calibs_run\<close>: the same for
    \<open>IngestCalibsArgumentParser\<close> and \<open>IngestCalibsTask\<close>;
  \<^item> \<open>combine\<close>: \<open>PropertySet.combine\<close>;
  \<^item> \<open>processCcd_run\<close>: lines 535 to 569 of \<open>doProcessCcd\<close>, from
    \<open>getPackageDir\<close> to \<open>processCcdTask.metadata\<close>, given the input repository, the
    absolute calibration repository, the output repository and the data id;
  \<^item> \<open>imageDifference_parseAndRun\<close>: \<open>ImageDifferenceTask.parseAndRun\<close>, giving the
    metadata of each entry of \<open>resultList\<close>.
\<close>

record ('md, 'cmd) ext =
  glob :: "world \<Rightarrow> string \<Rightarrow> string list"
  tar_extractall :: "string \<Rightarrow> string \<Rightarrow> unit io"
  ingest_parse_args :: "string list \<Rightarrow> 'cmd io"
  ingest_run :: "'cmd \<Rightarrow> 'md io"
  calibs_parse_args :: "string list \<Rightarrow> 'cmd io"
  calibs_run :: "'cmd \<Rightarrow> 'md io"
  combine :: "'md \<Rightarrow> 'md \<Rightarrow> 'md"
  processCcd_run :: "string \<Rightarrow> string \<Rightarrow> string \<Rightarrow> (string \<rightharpoonup> string) \<Rightarrow> 'md io"
  imageDifference_parseAndRun :: "string list \<Rightarrow> 'md list io"

subsection \<open>Constants\<close>

definition RAW_DIR :: string where "RAW_DIR = ''raw''"
definition MASTERCAL_DIR :: string where "MASTERCAL_DIR = ''calib''"
definition INGESTED_DIR :: string where "INGESTED_DIR = ''ingested''"
definition CALIBINGESTED_DIR :: string where "CALIBINGESTED_DIR = ''calibingested''"
definition PROCESSED_DIR :: string where "PROCESSED_DIR = ''processed''"
definition DIFFIM_DIR :: string where "DIFFIM_DIR = ''diffim''"

definition OUTPUT_DIRS :: "string list" where
  "OUTPUT_DIRS = [INGESTED_DIR, CALIBINGESTED_DIR, PROCESSED_DIR, DIFFIM_DIR]"

subsection \<open>File discovery\<close>

text \<open>\<open>string in file\<close> on strings: \<open>s\<close> occurs in \<open>t\<close> as a contiguous run.\<close>

fun starts_with :: "string \<Rightarrow> string \<Rightarrow> bool" where
  "starts_with [] t = True"
| "starts_with (c # s) [] = False"
| "starts_with (c # s) (d # t) = (c = d \<and> starts_with s t)"

fun py_in :: "string \<Rightarrow> string \<Rightarrow> bool" where
  "py_in s [] = (s = [])"
| "py_in s (d # t) = (starts_with s (d # t) \<or> py_in s t)"

definition glob_types :: "('md, 'cmd) ext \<Rightarrow> world \<Rightarrow> string \<Rightarrow> string list \<Rightarrow> string list" where
  "glob_types x w dir types = concat (map (\<lambda>files. glob x w (os_path_join dir files)) types)"

definition get_datafiles_in :: "('md, 'cmd) ext \<Rightarrow> world \<Rightarrow> string \<Rightarrow> string \<Rightarrow> string list" where
  "get_datafiles_in x w dataset_root raw_dir =
     glob_types x w (os_path_join dataset_root raw_dir) [''*.fits'', ''*.fz'']"

definition get_datafiles :: "('md, 'cmd) ext \<Rightarrow> world \<Rightarrow> string \<Rightarrow> string list" where
  "get_datafiles x w dataset_root = get_datafiles_in x w dataset_root RAW_DIR"

definition filestoignore :: "string list" where
  "filestoignore = [''fcw'', ''zcw'', ''ici'']"

definition get_calibdatafiles_in ::
  "('md, 'cmd) ext \<Rightarrow> world \<Rightarrow> string \<Rightarrow> string \<Rightarrow> string list" where
  "get_calibdatafiles_in x w dataset_root mastercal_dir =
     (let allcalibdatafiles =
            glob_types x w (os_path_join dataset_root mastercal_dir) [''*.fits'', ''*.fz'']
      in filter (\<lambda>file. list_all (\<lambda>string. \<not> py_in string file) filestoignore)
           allcalibdatafiles)"

definition get_calibdatafiles :: "('md, 'cmd) ext \<Rightarrow> world \<Rightarrow> string \<Rightarrow> string list" where
  "get_calibdatafiles x w dataset_root = get_calibdatafiles_in x w dataset_root MASTERCAL_DIR"

subsection \<open>Output repositories\<close>

definition py_index :: "'a list \<Rightarrow> nat \<Rightarrow> 'a io" where
  "py_index xs i = (if i < length xs then return_io (xs ! i) else raise_io IndexError)"

text \<open>
  \<open>get_output_repos(outputpath, OUTPUT_DIRS=OUTPUT_DIRS)\<close>; the second definition is
  the call with the default argument.
\<close>

definition get_output_repos_in ::
  "string \<Rightarrow> string list \<Rightarrow> (string \<times> string \<times> string \<times> string) io" where
  "get_output_repos_in outputpath output_dirs =
     bind_io (isdir_io outputpath) (\<lambda>is_dir.
     bind_io (if \<not> is_dir then os_mkdir outputpath else return_io ()) (\<lambda>u.
     bind_io (py_index output_dirs 0) (\<lambda>d0.
     bind_io (py_index output_dirs 1) (\<lambda>d1.
     bind_io (py_index output_dirs 2) (\<lambda>d2.
     bind_io (py_index output_dirs 3) (\<lambda>d3.
     return_io (os_path_join outputpath d0, os_path_join outputpath d1,
                os_path_join outputpath d2, os_path_join outputpath d3)))))))"

definition get_output_repos :: "string \<Rightarrow> (string \<times> string \<times> string \<times> string) io" where
  "get_output_repos outputpath = get_output_repos_in outputpath OUTPUT_DIRS"

subsection \<open>Ingestion of raw images\<close>

definition ASTROM_REFCAT_TAR :: string where "ASTROM_REFCAT_TAR = ''gaia_HiTS_2015.tar.gz''"
definition PHOTOM_REFCAT_TAR :: string where "PHOTOM_REFCAT_TAR = ''ps1_HiTS_2015.tar.gz''"
definition ASTROM_REFCAT_DIR :: string where "ASTROM_REFCAT_DIR = ''ref_cats/gaia''"
definition PHOTOM_REFCAT_DIR :: string where "PHOTOM_REFCAT_DIR = ''ref_cats/pan-starrs''"

definition doIngest ::
  "('md, 'cmd) ext \<Rightarrow> string \<Rightarrow> string \<Rightarrow> string list \<Rightarrow> 'md option io" where
  "doIngest x repo refcats datafiles =
     bind_io (exists_io (os_path_join repo ''registry.sqlite3'')) (\<lambda>ingested.
     if ingested
     then bind_io (log_io (LogWarn ''Raw images were previously ingested, skipping...''))
            (\<lambda>u. return_io None)
     else
       bind_io (isdir_io repo) (\<lambda>is_dir.
       bind_io (if \<not> is_dir then os_mkdir repo else return_io ()) (\<lambda>u.
       bind_io (write_file (os_path_join repo ''_mapper'')) (\<lambda>u.
       bind_io (log_io (LogInfo ''Ingesting raw images...'')) (\<lambda>u.
       bind_io (ingest_parse_args x
                  ([repo, ''--filetype'', ''raw'', ''--mode'', ''link''] @ datafiles))
         (\<lambda>parsedCmd.
       bind_io (ingest_run x parsedCmd) (\<lambda>ingest_metadata.
       bind_io (tar_extractall x (os_path_join refcats ASTROM_REFCAT_TAR)
                  (os_path_join repo ASTROM_REFCAT_DIR)) (\<lambda>u.
       bind_io (tar_extractall x (os_path_join refcats PHOTOM_REFCAT_TAR)
                  (os_path_join repo PHOTOM_REFCAT_DIR)) (\<lambda>u.
       bind_io (log_io (LogInfo (''Images are now ingested in '' @ repo))) (\<lambda>u.
       return_io (Some ingest_metadata)))))))))))"

subsection \<open>Ingestion of calibration products\<close>

text \<open>
  \<open>flatBiasIngest\<close>: only \<open>calibIngestTask.run\<close> stands in the \<open>try\<close>, and only
  \<open>sqlite3.IntegrityError\<close> is caught.
\<close>

definition flatBiasIngest ::
  "('md, 'cmd) ext \<Rightarrow> string \<Rightarrow> string \<Rightarrow> string list \<Rightarrow> 'md option io" where
  "flatBiasIngest x repo calib_repo calibdatafiles =
     bind_io (log_io (LogInfo ''Ingesting flats and biases...'')) (\<lambda>u.
     bind_io (calibs_parse_args x
                ([repo, ''--calib'', calib_repo, ''--mode'', ''link'', ''--validity'', ''999'']
                 @ calibdatafiles)) (\<lambda>parsedCmd w.
       case calibs_run x parsedCmd w of
         (Inl e, w') \<Rightarrow>
           if e = IntegrityError
           then bind_io (log_io (LogError ''sqlite3.IntegrityError: '' (Some e))) (\<lambda>u.
                bind_io (log_io (LogError
                  ''(sqlite3 doesn't think all the calibration files are unique)'' None))
                  (\<lambda>u. return_io None)) w'
           else (Inl e, w')
       | (Inr flatBias_metadata, w') \<Rightarrow>
           bind_io (log_io (LogInfo ''Success!'')) (\<lambda>u.
           bind_io (log_io (LogInfo (''Calibrations corresponding to '' @ repo
                      @ '' are now ingested in '' @ calib_repo))) (\<lambda>u.
           return_io (Some flatBias_metadata))) w'))"

text \<open>
  \<open>defectIngest\<close>: \<open>os.mkdir('defects')\<close> alone stands in the \<open>try\<close>; the ingestion
  is the \<open>else\<close> block, whose exceptions pass the handler; the \<open>finally\<close> block
  changes the directory back.
\<close>

definition defectIngest ::
  "('md, 'cmd) ext \<Rightarrow> string \<Rightarrow> string \<Rightarrow> string list \<Rightarrow> 'md option io" where
  "defectIngest x repo calib_repo defectfiles =
     bind_io (os_chdir calib_repo) (\<lambda>u.
     finally_io
       (\<lambda>w. case os_mkdir ''defects'' w of
           (Inl e, w') \<Rightarrow>
             if e = OSError
             then bind_io (isdir_io ''defects'') (\<lambda>is_dir.
                  bind_io (if is_dir
                           then log_io (LogWarn ''Defects were previously ingested, skipping...'')
                           else log_io (LogError
                             ''Defect ingestion failed because 'defects' dir could not be created''
                             None)) (\<lambda>u.
                  return_io None)) w'
             else (Inl e, w')
         | (Inr u, w') \<Rightarrow>
             bind_io (log_io (LogInfo ''Ingesting defects...'')) (\<lambda>u.
             bind_io (py_index defectfiles 0) (\<lambda>first.
             bind_io (tar_extractall x (os_path_join ''../../'' (first @ ''.tar.gz''))
                        ''defects'') (\<lambda>u.
             bind_io (py_index defectfiles 0) (\<lambda>first' w''.
             bind_io (calibs_parse_args x
                        ([''../../'' @ repo, ''--calib'', ''.'', ''--calibType'', ''defect'',
                          ''--mode'', ''skip'', ''--validity'', ''999'']
                         @ glob x w'' (os_path_join (os_path_join ''defects''
                                         (os_path_basename first')) ''*.fits'')))
               (\<lambda>defectParsedCmd.
             bind_io (calibs_run x defectParsedCmd) (\<lambda>defect_metadata.
             return_io (Some defect_metadata))) w'')))) w')
       (os_chdir ''../..''))"

definition doIngestCalibs ::
  "('md, 'cmd) ext \<Rightarrow> string \<Rightarrow> string \<Rightarrow> string list \<Rightarrow> string list \<Rightarrow> 'md option io" where
  "doIngestCalibs x repo calib_repo calibdatafiles defectfiles =
     bind_io
       (bind_io (isdir_io calib_repo) (\<lambda>is_dir.
        if \<not> is_dir
        then bind_io (os_mkdir calib_repo) (\<lambda>u.
             bind_io (flatBiasIngest x repo calib_repo calibdatafiles) (\<lambda>flatBias_metadata.
             bind_io (defectIngest x repo calib_repo defectfiles) (\<lambda>defect_metadata.
             return_io (flatBias_metadata, defect_metadata))))
        else
          bind_io (exists_io (os_path_join calib_repo ''cpBIAS'')) (\<lambda>has_bias.
          if has_bias
          then bind_io (log_io (LogWarn
                 ''Flats and biases were previously ingested, skipping...'')) (\<lambda>u.
               bind_io (defectIngest x repo calib_repo defectfiles) (\<lambda>defect_metadata.
               return_io (None, defect_metadata)))
          else bind_io (flatBiasIngest x repo calib_repo calibdatafiles) (\<lambda>flatBias_metadata.
               bind_io (defectIngest x repo calib_repo defectfiles) (\<lambda>defect_metadata.
               return_io (flatBias_metadata, defect_metadata))))))
       (\<lambda>(flatBias_metadata, defect_metadata).
          case flatBias_metadata of
            Some fb \<Rightarrow>
              (case defect_metadata of
                 Some d \<Rightarrow> return_io (Some (combine x fb d))
               | None \<Rightarrow> return_io (Some fb))
          | None \<Rightarrow> return_io defect_metadata)"

subsection \<open>Processing and differencing\<close>

text \<open>\<open>items[::2]\<close> and \<open>items[1::2]\<close>.\<close>

fun evens :: "'a list \<Rightarrow> 'a list" where
  "evens [] = []"
| "evens [a] = [a]"
| "evens (a # b # rest) = a # evens rest"

fun odds :: "'a list \<Rightarrow> 'a list" where
  "odds [] = []"
| "odds [a] = []"
| "odds (a # b # rest) = b # odds rest"

text \<open>\<open>re.split('[ +=]', dataId)\<close>.\<close>

definition dataId_items :: "string \<Rightarrow> string list" where
  "dataId_items dataId = split_on (\<lambda>c. c = CHR '' '' \<or> c = CHR ''+'' \<or> c = CHR ''='') dataId"

text \<open>\<open>zip(dataId_items[::2], dataId_items[1::2])\<close>, the key-value pairs of a data id.\<close>

definition dataId_pairs :: "string \<Rightarrow> (string \<times> string) list" where
  "dataId_pairs dataId = zip (evens (dataId_items dataId)) (odds (dataId_items dataId))"

text \<open>\<open>dict(...)\<close> of the pairs: the last pair of a key is the one the dictionary keeps.\<close>

definition dataId_dict :: "string \<Rightarrow> (string \<rightharpoonup> string)" where
  "dataId_dict dataId = map_of (rev (dataId_pairs dataId))"

definition doProcessCcd ::
  "('md, 'cmd) ext \<Rightarrow> string \<Rightarrow> string \<Rightarrow> string \<Rightarrow> string \<Rightarrow> 'md option io" where
  "doProcessCcd x repo calib_repo processed_repo dataId =
     (case dataId_dict dataId ''visit'' of
        None \<Rightarrow> raise_io RuntimeError
      | Some visit \<Rightarrow>
          bind_io (isdir_io (os_path_join processed_repo (''0'' @ visit))) (\<lambda>done.
          if done
          then bind_io (log_io (LogWarn (''ProcessCcd has already been run for visit '' @ visit
                          @ '', skipping...''))) (\<lambda>u. return_io None)
          else
            bind_io (isdir_io processed_repo) (\<lambda>is_dir.
            bind_io (if \<not> is_dir then os_mkdir processed_repo else return_io ()) (\<lambda>u.
            bind_io (log_io (LogInfo ''Running ProcessCcd...'')) (\<lambda>u w.
            bind_io (processCcd_run x repo (os_path_abspath w calib_repo) processed_repo
                       (dataId_dict dataId)) (\<lambda>process_metadata.
            return_io (Some process_metadata)) w)))))"

definition doDiffIm ::
  "('md, 'cmd) ext \<Rightarrow> string \<Rightarrow> string \<Rightarrow> string \<Rightarrow> string \<Rightarrow> 'md option io" where
  "doDiffIm x processed_repo dataId template diffim_repo =
     (case dataId_dict dataId ''visit'' of
        None \<Rightarrow> raise_io RuntimeError
      | Some visit \<Rightarrow>
          bind_io (exists_io (os_path_join (os_path_join diffim_repo ''deepDiff'')
                     (''v'' @ visit))) (\<lambda>done.
          if done
          then bind_io (log_io (LogWarn (''DiffIm has already been run for visit '' @ visit
                          @ '', skipping...''))) (\<lambda>u. return_io None)
          else
            bind_io (isdir_io diffim_repo) (\<lambda>is_dir.
            bind_io (if \<not> is_dir then os_mkdir diffim_repo else return_io ()) (\<lambda>u.
            bind_io (log_io (LogInfo ''Running ImageDifference...'')) (\<lambda>u.
            bind_io (imageDifference_parseAndRun x
                       ([processed_repo, ''--id''] @ split_on (\<lambda>c. c = CHR '' '') dataId
                        @ [''--templateId'', ''visit='' @ template, ''--output'', diffim_repo]))
              (\<lambda>resultList.
            bind_io (py_index resultList 0) (\<lambda>diffim_metadata.
            return_io (Some diffim_metadata))))))))"

section \<open>Notions the properties are stated with\<close>

subsection \<open>Image selection\<close>

text \<open>
  What \<open>runDataRef\<close> computes for one entry of \<open>selectDataList\<close>: its sky corners,
  its footprint polygon (the convex hull of the corners, when there is one), whether
  the footprint meets the patch, the exception the entry makes the loop raise, the
  \<open>BaseExposureInfo\<close> built for it, and its PSF size in sigma and in FWHM. The FWHM
  test of the second loop is \<open>fwhm_ok\<close>. An image is \<open>selected_image\<close> when its
  footprint polygon intersects the patch polygon and its FWHM lies strictly between
  the two bounds; it is \<open>deselected\<close> when its WCS raises one of the two caught
  exceptions, its corners have no hull, or its polygon misses the patch polygon.
\<close>

definition image_corners ::
  "('ref, 'id, 'wcs, 'pix, 'coord, 'vec, 'poly) framework \<Rightarrow> ('ref, 'wcs) SelectStruct \<Rightarrow> exn + 'coord list" where
  "image_corners fw data = imageCorners_of (pixelToSky fw (wcs data)) (getCorners fw (dims data))"

definition footprint_polygon ::
  "('ref, 'id, 'wcs, 'pix, 'coord, 'vec, 'poly) framework \<Rightarrow> ('ref, 'wcs) SelectStruct \<Rightarrow> 'poly option" where
  "footprint_polygon fw data =
     (case image_corners fw data of
        Inl e \<Rightarrow> None
      | Inr corners \<Rightarrow> convexHull fw (map (getVector fw) corners))"

definition overlaps ::
  "('ref, 'id, 'wcs, 'pix, 'coord, 'vec, 'poly) framework \<Rightarrow> 'poly option \<Rightarrow> ('ref, 'wcs) SelectStruct \<Rightarrow> bool" where
  "overlaps fw patchPoly data =
     (case (patchPoly, footprint_polygon fw data) of
        (Some pp, Some ip) \<Rightarrow> intersects fw pp ip
      | _ \<Rightarrow> False)"

definition raised_by ::
  "('ref, 'id, 'wcs, 'pix, 'coord, 'vec, 'poly) framework \<Rightarrow> 'poly option \<Rightarrow> ('ref, 'wcs) SelectStruct \<Rightarrow> exn option" where
  "raised_by fw patchPoly data =
     (case image_corners fw data of
        Inl e \<Rightarrow> if e = PexDomainError \<or> e = PexRuntimeError then None else Some e
      | Inr corners \<Rightarrow>
          (case (convexHull fw (map (getVector fw) corners), patchPoly) of
             (Some ip, None) \<Rightarrow> Some AttributeError
           | _ \<Rightarrow> None))"

definition exposure_info ::
  "('ref, 'id, 'wcs, 'pix, 'coord, 'vec, 'poly) framework \<Rightarrow> ('ref, 'wcs) SelectStruct \<Rightarrow> ('id, 'coord) BaseExposureInfo" where
  "exposure_info fw data =
     \<lparr>info_dataId = dataId_of fw (dataRef data),
      info_coordList = (case image_corners fw data of Inl e \<Rightarrow> [] | Inr corners \<Rightarrow> corners)\<rparr>"

definition psf_sigma :: "('ref, 'id, 'wcs, 'pix, 'coord, 'vec, 'poly) framework \<Rightarrow> ('ref, 'wcs) SelectStruct \<Rightarrow> real" where
  "psf_sigma fw data = getDeterminantRadius fw (dataRef data)"

definition psf_fwhm :: "('ref, 'id, 'wcs, 'pix, 'coord, 'vec, 'poly) framework \<Rightarrow> ('ref, 'wcs) SelectStruct \<Rightarrow> real" where
  "psf_fwhm fw data = getDeterminantRadius fw (dataRef data) * sqrt (8 * ln 2)"

definition selected_image ::
  "('ref, 'id, 'wcs, 'pix, 'coord, 'vec, 'poly) framework \<Rightarrow> MaxPsfWcsSelectImageConfig \<Rightarrow> 'poly \<Rightarrow>
   ('ref, 'wcs) SelectStruct \<Rightarrow> bool" where
  "selected_image fw config patchPoly data =
     ((case footprint_polygon fw data of None \<Rightarrow> False | Some ip \<Rightarrow> intersects fw patchPoly ip)
      \<and> minPsfFwhm config < psf_fwhm fw data \<and> psf_fwhm fw data < maxPsfFwhm config)"

definition wcs_raises_uncaught ::
  "('ref, 'id, 'wcs, 'pix, 'coord, 'vec, 'poly) framework \<Rightarrow> ('ref, 'wcs) SelectStruct \<Rightarrow> bool" where
  "wcs_raises_uncaught fw data =
     (case image_corners fw data of
        Inl e \<Rightarrow> e \<noteq> PexDomainError \<and> e \<noteq> PexRuntimeError
      | Inr corners \<Rightarrow> False)"

definition deselected ::
  "('ref, 'id, 'wcs, 'pix, 'coord, 'vec, 'poly) framework \<Rightarrow> 'poly option \<Rightarrow> ('ref, 'wcs) SelectStruct \<Rightarrow> bool" where
  "deselected fw patchPoly data =
     (case image_corners fw data of
        Inl e \<Rightarrow> e = PexDomainError \<or> e = PexRuntimeError
      | Inr corners \<Rightarrow>
          (case convexHull fw (map (getVector fw) corners) of
             None \<Rightarrow> True
           | Some ip \<Rightarrow> (case patchPoly of None \<Rightarrow> False | Some pp \<Rightarrow> \<not> intersects fw pp ip)))"

definition fwhm_ok :: "MaxPsfWcsSelectImageConfig \<Rightarrow> real \<Rightarrow> bool" where
  "fwhm_ok config size_sigma =
     (size_sigma * sigma_to_fwhm < maxPsfFwhm config \<and> size_sigma * sigma_to_fwhm > minPsfFwhm config)"


subsection \<open>The pipeline driver\<close>

text \<open>
  \<open>flatBias_entry w0 calib_repo w\<close>: started in world \<open>w0\<close>, \<open>doIngestCalibs\<close>
  reaches its call of \<open>flatBiasIngest\<close> in world \<open>w\<close> (either branch that makes the
  call). \<open>output_paths\<close> are the four repository paths under an output path.
\<close>

definition flatBias_entry :: "world \<Rightarrow> string \<Rightarrow> world \<Rightarrow> bool" where
  "flatBias_entry w0 calib_repo w =
     (if os_path_isdir w0 calib_repo
      then \<not> os_path_exists w0 (os_path_join calib_repo ''cpBIAS'') \<and> w = w0
      else os_mkdir calib_repo w0 = (Inr (), w))"

definition output_paths :: "string \<Rightarrow> string \<times> string \<times> string \<times> string" where
  "output_paths outputpath =
     (os_path_join outputpath ''ingested'', os_path_join outputpath ''calibingested'',
      os_path_join outputpath ''processed'', os_path_join outputpath ''diffim'')"


section \<open>Example data\<close>

text \<open>
  A small stand-in for the framework, to run the selection on: a data reference is a
  pair of an identifier and a PSF sigma, a WCS either raises or shifts a pixel in x, a
  polygon is the x-extent of its vertices, there is no hull for fewer than three distinct
  points, and two polygons intersect when their extents overlap.
\<close>

definition demo_hull :: "(int \<times> int) list \<Rightarrow> (int \<times> int) option" where
  "demo_hull vs =
     (if length (remdups vs) < 3 then None
      else Some (fold min (map fst vs) (fst (hd vs)), fold max (map fst vs) (fst (hd vs))))"

definition demo_framework ::
  "(nat \<times> nat, nat, exn + int, int \<times> int, int \<times> int, int \<times> int, int \<times> int) framework" where
  "demo_framework =
     \<lparr>dataId_of = fst,
      getDeterminantRadius = (\<lambda>r. real (snd r)),
      getCorners = (\<lambda>(nx, ny). [(0, 0), (nx, 0), (nx, ny), (0, ny)]),
      pixelToSky = (\<lambda>w pix. case w of Inl e \<Rightarrow> Inl e | Inr dx \<Rightarrow> Inr (fst pix + dx, snd pix)),
      getVector = (\<lambda>c. c),
      convexHull = demo_hull,
      intersects = (\<lambda>p q. fst p \<le> snd q \<and> fst q \<le> snd p)\<rparr>"

definition demo_patch :: "(int \<times> int) list" where
  "demo_patch = [(0, 0), (10, 0), (10, 10), (0, 10)]"

definition degenerate_patch :: "(int \<times> int) list" where
  "degenerate_patch = [(0, 0), (0, 0), (0, 0), (0, 0)]"

definition demo_image :: "nat \<Rightarrow> nat \<Rightarrow> exn + int \<Rightarrow> int \<times> int \<Rightarrow> (nat \<times> nat, exn + int) SelectStruct" where
  "demo_image ident sigma w d = \<lparr>dataRef = (ident, sigma), wcs = w, dims = d\<rparr>"

definition demo_images :: "(nat \<times> nat, exn + int) SelectStruct list" where
  "demo_images =
     [demo_image 1 1 (Inr 5) (10, 10),
      demo_image 2 3 (Inr 5) (10, 10),
      demo_image 3 1 (Inr 50) (10, 10),
      demo_image 4 1 (Inl PexDomainError) (10, 10),
      demo_image 5 1 (Inr 5) (0, 0)]"

definition wide_config :: MaxPsfWcsSelectImageConfig where
  "wide_config = \<lparr>maxPsfFwhm = 10, minPsfFwhm = 0\<rparr>"

text \<open>
  A world to run the driver in: the output repositories of an earlier run on visit
  410985 stand under \<open>out\<close>, with the registry of the raw images, the processed
  visit and its difference images, and a calibration repository that holds no
  \<open>cpBIAS\<close> yet. The stand-in for the framework's tasks returns the name of the task
  as its metadata; its calibration ingest raises \<open>sqlite3.IntegrityError\<close> unless it
  is asked for defects.
\<close>

definition demo_world :: world where
  "demo_world =
     \<lparr>fs = map_of
        [([''out''], Dir),
         ([''out'', ''ingested''], Dir),
         ([''out'', ''ingested'', ''registry.sqlite3''], File),
         ([''out'', ''calibingested''], Dir),
         ([''out'', ''processed''], Dir),
         ([''out'', ''processed'', ''0410985''], Dir),
         ([''out'', ''diffim''], Dir),
         ([''out'', ''diffim'', ''deepDiff''], Dir),
         ([''out'', ''diffim'', ''deepDiff'', ''v410985''], Dir)],
      cwd = [],
      ap_log = []\<rparr>"

definition demo_ext :: "(string, string list) ext" where
  "demo_ext =
     \<lparr>glob = (\<lambda>w pattern. []),
      tar_extractall = (\<lambda>src dst. return_io ()),
      ingest_parse_args = return_io,
      ingest_run = (\<lambda>cmd. return_io ''ingest''),
      calibs_parse_args = return_io,
      calibs_run = (\<lambda>cmd. if ''--calibType'' \<in> set cmd then return_io ''defects''
                           else raise_io IntegrityError),
      combine = (\<lambda>a b. a @ '' '' @ b),
      processCcd_run = (\<lambda>repo calib_repo processed_repo dataId. return_io ''processCcd''),
      imageDifference_parseAndRun = (\<lambda>args. return_io [''imageDifference''])\<rparr>"



section \<open>Properties of the image selection\<close>

lemma select_loop_log_indep:
  "fst (select_loop fw pp ds acc lg) = fst (select_loop fw pp ds acc lg')"
proof (induction ds arbitrary: acc lg lg' pp)
  case Nil
  show ?case by simp
next
  case (Cons d ds)
  obtain ps rs es where acc: "acc = (ps, rs, es)" by (cases acc) auto
  show ?case unfolding acc
    apply (auto simp: Let_def split: sum.splits option.splits)
     apply (rule Cons.IH)+
    done
qed

lemma select_loop_log_append:
  "snd (select_loop fw pp ds acc (l1 @ l2)) = l1 @ snd (select_loop fw pp ds acc l2)"
proof (induction ds arbitrary: acc l2)
  case Nil
  show ?case by simp
next
  case (Cons d ds)
  obtain ps rs es where acc: "acc = (ps, rs, es)" by (cases acc) auto
  show ?case unfolding acc
    using Cons.IH [of _ "l2 @ [DebugWcsError (dataId_of fw (dataRef d)) PexDomainError]"]
      Cons.IH [of _ "l2 @ [DebugWcsError (dataId_of fw (dataRef d)) PexRuntimeError]"]
      Cons.IH [of _ "l2 @ [DebugNoPolygon (dataId_of fw (dataRef d))]"]
      Cons.IH [of _ l2]
    by (auto simp: Let_def split: sum.splits option.splits)
qed

lemma select_loop_raise:
  "raised_by fw pp d = Some e \<Longrightarrow> fst (select_loop fw pp (d # ds) acc lg) = Inl e"
  by (cases acc)
     (auto simp: Let_def raised_by_def image_corners_def split: sum.splits option.splits if_splits)

lemma select_loop_step:
  "raised_by fw pp d = None \<Longrightarrow>
   fst (select_loop fw pp (d # ds) (ps, rs, es) lg) =
   fst (select_loop fw pp ds
          (if overlaps fw pp d
           then (ps @ [psf_sigma fw d], rs @ [dataRef d], es @ [exposure_info fw d])
           else (ps, rs, es)) lg)"
  using select_loop_log_indep [of fw pp ds "(ps, rs, es)" _ lg]
  by (auto simp: Let_def raised_by_def overlaps_def footprint_polygon_def image_corners_def
      exposure_info_def psf_sigma_def split: sum.splits option.splits if_splits)

lemma select_loop_ok:
  "\<forall>d \<in> set ds. raised_by fw pp d = None \<Longrightarrow>
   fst (select_loop fw pp ds (ps, rs, es) lg) =
     Inr (ps @ map (psf_sigma fw) (filter (overlaps fw pp) ds),
          rs @ map dataRef (filter (overlaps fw pp) ds),
          es @ map (exposure_info fw) (filter (overlaps fw pp) ds))"
proof (induction ds arbitrary: ps rs es)
  case Nil
  show ?case by simp
next
  case (Cons d ds)
  then show ?case by (simp add: select_loop_step del: select_loop.simps)
qed

lemma select_loop_Inr:
  "fst (select_loop fw pp ds (ps, rs, es) lg) = Inr r \<Longrightarrow> d \<in> set ds \<Longrightarrow> raised_by fw pp d = None"
proof (induction ds arbitrary: ps rs es)
  case Nil
  then show ?case by simp
next
  case (Cons a ds)
  show ?case
  proof (cases "raised_by fw pp a")
    case None
    with Cons show ?thesis by (auto simp: select_loop_step simp del: select_loop.simps split: if_splits)
  next
    case (Some e)
    with Cons.prems show ?thesis by (simp add: select_loop_raise del: select_loop.simps)
  qed
qed

lemma filter_loop_fst:
  "fst (filter_loop fw config zs (frs, fis) lg) =
     (frs @ map (\<lambda>z. fst (snd z)) (filter (\<lambda>z. fwhm_ok config (fst z)) zs),
      fis @ map (\<lambda>z. snd (snd z)) (filter (\<lambda>z. fwhm_ok config (fst z)) zs))"
  by (induction fw config zs "(frs, fis)" lg arbitrary: frs fis rule: filter_loop.induct)
     (auto simp: Let_def fwhm_ok_def)

lemma filter_loop_log_append:
  "snd (filter_loop fw config zs acc (l1 @ l2)) = l1 @ snd (filter_loop fw config zs acc l2)"
proof (induction zs arbitrary: acc l2)
  case Nil
  show ?case by simp
next
  case (Cons z zs)
  obtain s r i where z: "z = (s, r, i)" by (cases z) auto
  obtain frs fis where acc: "acc = (frs, fis)" by (cases acc) auto
  show ?case unfolding z acc
    using Cons.IH [of _ "l2 @ [InfoSelected (dataId_of fw r) (s * sigma_to_fwhm)]"] Cons.IH [of _ l2]
    by (auto simp: Let_def)
qed

lemma half_less_ln2: "1 / 2 < ln (2::real)"
  by (metis less_numeral_extra(1) ln_add1_gt one_add_one)

lemma sigma_to_fwhm_bounds: "2 < sigma_to_fwhm \<and> sigma_to_fwhm < 3"
proof -
  have lo: "(2::real)\<^sup>2 < 8 * ln 2" using half_less_ln2 by simp
  have hi: "8 * ln 2 < (3::real)\<^sup>2" using ln_2_less_1 by simp
  have "2 < sqrt (8 * ln 2)" using lo by (rule real_less_rsqrt)
  moreover have "sqrt (8 * ln 2) < 3" using hi by (intro real_less_lsqrt) simp_all
  ultimately show ?thesis by (simp add: sigma_to_fwhm_def)
qed

lemma runDataRef_fst:
  "fst (runDataRef fw config cl ds mk lg) =
     (case fst (select_loop fw (convexHull fw (map (getVector fw) cl)) ds ([], [], []) lg) of
        Inl e \<Rightarrow> Inl e
      | Inr (ps, rs, es) \<Rightarrow>
          Inr \<lparr>dataRefList =
                 (if mk then Some (map (\<lambda>z. fst (snd z))
                    (filter (\<lambda>z. fwhm_ok config (fst z)) (zip ps (zip rs es)))) else None),
               exposureInfoList = map (\<lambda>z. snd (snd z))
                    (filter (\<lambda>z. fwhm_ok config (fst z)) (zip ps (zip rs es)))\<rparr>)"
proof -
  let ?pp = "convexHull fw (map (getVector fw) cl)"
  obtain v lg' where sl: "select_loop fw ?pp ds ([], [], []) lg = (v, lg')"
    by (cases "select_loop fw ?pp ds ([], [], []) lg")
  show ?thesis
  proof (cases v)
    case (Inl e)
    with sl show ?thesis by (simp add: runDataRef_def)
  next
    case (Inr acc)
    obtain ps rs es where acc: "acc = (ps, rs, es)" by (cases acc) auto
    obtain fr lg'' where fl:
      "filter_loop fw config (zip ps (zip rs es)) ([], []) lg' = (fr, lg'')"
      by (cases "filter_loop fw config (zip ps (zip rs es)) ([], []) lg'")
    have "fr = fst (filter_loop fw config (zip ps (zip rs es)) ([], []) lg')"
      using fl by simp
    then have fr: "fr = (map (\<lambda>z. fst (snd z)) (filter (\<lambda>z. fwhm_ok config (fst z)) (zip ps (zip rs es))),
                        map (\<lambda>z. snd (snd z)) (filter (\<lambda>z. fwhm_ok config (fst z)) (zip ps (zip rs es))))"
      by (simp add: filter_loop_fst)
    show ?thesis using sl Inr acc fl fr by (simp add: runDataRef_def)
  qed
qed

lemma zip3_map:
  "zip (map f xs) (zip (map g xs) (map h xs)) = map (\<lambda>x. (f x, g x, h x)) xs"
  by (induction xs) auto

lemma runDataRef_ok:
  assumes "\<forall>d \<in> set ds. raised_by fw (convexHull fw (map (getVector fw) cl)) d = None"
  shows "fst (runDataRef fw config cl ds mk lg) =
         Inr \<lparr>dataRefList =
                (if mk then Some (map dataRef (filter (\<lambda>d. overlaps fw (convexHull fw (map (getVector fw) cl)) d
                     \<and> fwhm_ok config (psf_sigma fw d)) ds)) else None),
              exposureInfoList = map (exposure_info fw) (filter (\<lambda>d. overlaps fw (convexHull fw (map (getVector fw) cl)) d
                     \<and> fwhm_ok config (psf_sigma fw d)) ds)\<rparr>"
proof -
  have conj_eq: "(\<lambda>d. fwhm_ok config (psf_sigma fw d) \<and> overlaps fw (convexHull fw (map (getVector fw) cl)) d)
     = (\<lambda>d. overlaps fw (convexHull fw (map (getVector fw) cl)) d \<and> fwhm_ok config (psf_sigma fw d))"
    by auto
  show ?thesis
    using select_loop_ok [OF assms, of "[]" "[]" "[]" lg]
    by (simp add: runDataRef_fst zip3_map filter_map comp_def conj_eq)
qed


lemma psf_fwhm_sigma: "psf_fwhm fw d = psf_sigma fw d * sigma_to_fwhm"
  by (simp add: psf_fwhm_def psf_sigma_def sigma_to_fwhm_def)

lemma raised_by_Some_patch:
  "raised_by fw (Some pp) d = None \<longleftrightarrow> \<not> wcs_raises_uncaught fw d"
  by (auto simp: raised_by_def wcs_raises_uncaught_def split: sum.splits option.splits)

lemma selected_image_iff:
  "selected_image fw config pp d \<longleftrightarrow> overlaps fw (Some pp) d \<and> fwhm_ok config (psf_sigma fw d)"
  by (auto simp: selected_image_def overlaps_def fwhm_ok_def psf_fwhm_sigma split: option.splits)

text \<open>
  Claim C1, as the code has it. When the patch has a convex hull and no WCS raises an
  exception other than the two that are caught, \<open>runDataRef\<close> returns, and it selects
  exactly the images of \<open>selectDataList\<close> whose footprint polygon intersects the patch
  polygon and whose PSF FWHM (sigma times \<open>sqrt (8 * ln 2)\<close>) lies strictly between
  \<open>minPsfFwhm\<close> and \<open>maxPsfFwhm\<close>, in the order of the input.
\<close>

theorem runDataRef_selects:
  assumes "convexHull fw (map (getVector fw) coordList) = Some patchPoly"
    and "\<forall>data \<in> set selectDataList. \<not> wcs_raises_uncaught fw data"
  shows "fst (runDataRef fw config coordList selectDataList makeDataRefList lg) =
         Inr \<lparr>dataRefList =
                (if makeDataRefList
                 then Some (map dataRef (filter (selected_image fw config patchPoly) selectDataList))
                 else None),
              exposureInfoList =
                map (exposure_info fw) (filter (selected_image fw config patchPoly) selectDataList)\<rparr>"
proof -
  have "\<forall>d \<in> set selectDataList.
          raised_by fw (convexHull fw (map (getVector fw) coordList)) d = None"
    using assms by (simp add: raised_by_Some_patch)
  from runDataRef_ok [OF this] show ?thesis
    using assms(1) by (simp add: selected_image_iff [abs_def])
qed

lemma fwhm_ok_mono:
  assumes "{minPsfFwhm c1 .. maxPsfFwhm c1} \<subseteq> {minPsfFwhm c2 .. maxPsfFwhm c2}"
    and "fwhm_ok c1 s"
  shows "fwhm_ok c2 s"
proof -
  from assms(2) have s: "minPsfFwhm c1 < s * sigma_to_fwhm" "s * sigma_to_fwhm < maxPsfFwhm c1"
    by (simp_all add: fwhm_ok_def)
  then have "minPsfFwhm c1 \<le> maxPsfFwhm c1" by simp
  with assms(1) have "minPsfFwhm c2 \<le> minPsfFwhm c1" "maxPsfFwhm c1 \<le> maxPsfFwhm c2"
    by (simp_all add: atLeastatMost_subset_iff)
  with s show ?thesis by (simp add: fwhm_ok_def)
qed

lemma fwhm_filter_mono:
  assumes "{minPsfFwhm c1 .. maxPsfFwhm c1} \<subseteq> {minPsfFwhm c2 .. maxPsfFwhm c2}"
  shows "set (map f (filter (\<lambda>z. fwhm_ok c1 (fst z)) zs)) \<subseteq>
         set (map f (filter (\<lambda>z. fwhm_ok c2 (fst z)) zs))"
  using fwhm_ok_mono [OF assms] by auto

text \<open>
  Claim C2. When the interval of one configuration is contained in that of another, the
  two runs on the same patch and selection list either raise the same exception or both
  return, and then every image selected under the narrower interval is selected under the
  wider one.
\<close>

theorem runDataRef_monotone:
  assumes "{minPsfFwhm c1 .. maxPsfFwhm c1} \<subseteq> {minPsfFwhm c2 .. maxPsfFwhm c2}"
  shows "case (fst (runDataRef fw c1 coordList selectDataList makeDataRefList lg),
               fst (runDataRef fw c2 coordList selectDataList makeDataRefList lg)) of
           (Inr r1, Inr r2) \<Rightarrow>
             set (exposureInfoList r1) \<subseteq> set (exposureInfoList r2) \<and>
             rel_option (\<lambda>refs1 refs2. set refs1 \<subseteq> set refs2) (dataRefList r1) (dataRefList r2)
         | (Inl e1, Inl e2) \<Rightarrow> e1 = e2
         | _ \<Rightarrow> False"
proof -
  note sub = fwhm_filter_mono [OF assms]
  show ?thesis
  proof (cases "fst (select_loop fw (convexHull fw (map (getVector fw) coordList))
                  selectDataList ([], [], []) lg)")
    case (Inl e)
    then show ?thesis by (simp add: runDataRef_fst)
  next
    case (Inr acc)
    obtain ps rs es where acc: "acc = (ps, rs, es)" by (cases acc) auto
    show ?thesis
      using sub [of "\<lambda>z. snd (snd z)" "zip ps (zip rs es)"]
        sub [of "\<lambda>z. fst (snd z)" "zip ps (zip rs es)"]
      by (simp add: runDataRef_fst Inr acc del: set_map set_filter)
  qed
qed

lemma deselected_step:
  assumes "deselected fw pp d"
  shows "raised_by fw pp d = None" and "\<not> overlaps fw pp d"
  using assms
  by (auto simp: deselected_def raised_by_def overlaps_def footprint_polygon_def
      split: sum.splits option.splits)

lemma select_loop_deselected:
  assumes "deselected fw pp d"
  shows "fst (select_loop fw pp (xs @ d # ys) acc lg) = fst (select_loop fw pp (xs @ ys) acc lg)"
proof (induction xs arbitrary: acc)
  case Nil
  obtain ps rs es where acc: "acc = (ps, rs, es)" by (cases acc) auto
  show ?case unfolding acc
    using deselected_step [OF assms] by (simp add: select_loop_step del: select_loop.simps)
next
  case (Cons x xs)
  obtain ps rs es where acc: "acc = (ps, rs, es)" by (cases acc) auto
  show ?case
  proof (cases "raised_by fw pp x")
    case None
    then show ?thesis unfolding acc
      by (simp add: select_loop_step Cons.IH del: select_loop.simps)
  next
    case (Some e)
    then show ?thesis by (simp add: select_loop_raise del: select_loop.simps)
  qed
qed

text \<open>
  Claim C3. An image whose WCS raises a caught exception, whose corners have no convex
  hull, or whose footprint polygon does not intersect the patch polygon is left out
  without raising: the run gives what it gives on the list without that image, so the
  images before and after it are processed as if it were not there.
\<close>

theorem runDataRef_deselects:
  assumes "deselected fw (convexHull fw (map (getVector fw) coordList)) data"
  shows "fst (runDataRef fw config coordList (before @ data # after) makeDataRefList lg) =
         fst (runDataRef fw config coordList (before @ after) makeDataRefList lg)"
  by (simp add: runDataRef_fst select_loop_deselected [OF assms])

lemma runDataRef_snd:
  "snd (runDataRef fw config cl ds mk lg) =
     (case select_loop fw (convexHull fw (map (getVector fw) cl)) ds ([], [], []) lg of
        (Inl e, lg') \<Rightarrow> lg'
      | (Inr (ps, rs, es), lg') \<Rightarrow> snd (filter_loop fw config (zip ps (zip rs es)) ([], []) lg'))"
  by (auto simp: runDataRef_def split: sum.splits prod.splits)

text \<open>
  Claim C6, as the code has it. What \<open>runDataRef\<close> returns does not depend on what was
  logged before the call, and its only effect is to append to the log the messages it
  would write to an empty log: the result and the messages are functions of the
  arguments alone.
\<close>

theorem runDataRef_deterministic:
  "runDataRef fw config coordList selectDataList makeDataRefList lg =
     (fst (runDataRef fw config coordList selectDataList makeDataRefList []),
      lg @ snd (runDataRef fw config coordList selectDataList makeDataRefList []))"
proof -
  let ?pp = "convexHull fw (map (getVector fw) coordList)"
  obtain v l0 where s0: "select_loop fw ?pp selectDataList ([], [], []) [] = (v, l0)"
    by (cases "select_loop fw ?pp selectDataList ([], [], []) []")
  have "fst (select_loop fw ?pp selectDataList ([], [], []) lg) = v"
    using select_loop_log_indep [of fw ?pp selectDataList "([], [], [])" lg "[]"] s0 by simp
  moreover have "snd (select_loop fw ?pp selectDataList ([], [], []) lg) = lg @ l0"
    using select_loop_log_append [of fw ?pp selectDataList "([], [], [])" lg "[]"] s0 by simp
  ultimately have s1: "select_loop fw ?pp selectDataList ([], [], []) lg = (v, lg @ l0)"
    by (simp add: prod_eq_iff)
  have "fst (runDataRef fw config coordList selectDataList makeDataRefList lg) =
        fst (runDataRef fw config coordList selectDataList makeDataRefList [])"
    by (simp add: runDataRef_fst s0 s1)
  moreover have "snd (runDataRef fw config coordList selectDataList makeDataRefList lg) =
        lg @ snd (runDataRef fw config coordList selectDataList makeDataRefList [])"
    by (simp add: runDataRef_snd s0 s1 filter_loop_log_append split: sum.splits prod.splits)
  ultimately show ?thesis by (simp add: prod_eq_iff)
qed

text \<open>
  Claim C9. When \<open>runDataRef\<close> returns with \<open>makeDataRefList\<close> true, there are
  entries \<open>sel\<close> of \<open>selectDataList\<close>, in input order, such that \<open>dataRefList\<close> holds
  their data references and \<open>exposureInfoList\<close> their exposure infos: the two lists have
  equal length and their i-th entries describe the same image. With \<open>makeDataRefList\<close>
  false the call returns the same \<open>exposureInfoList\<close> and \<open>None\<close> for \<open>dataRefList\<close>.
\<close>

theorem runDataRef_aligned:
  assumes "fst (runDataRef fw config coordList selectDataList True lg) = Inr r"
  shows "\<exists>sel. subseq sel selectDataList \<and>
               dataRefList r = Some (map dataRef sel) \<and>
               exposureInfoList r = map (exposure_info fw) sel \<and>
               length (map dataRef sel) = length (exposureInfoList r) \<and>
               map (dataId_of fw) (map dataRef sel) = map info_dataId (exposureInfoList r) \<and>
               fst (runDataRef fw config coordList selectDataList False lg) =
                 Inr (r\<lparr>dataRefList := None\<rparr>)"
proof -
  let ?pp = "convexHull fw (map (getVector fw) coordList)"
  let ?sel = "filter (\<lambda>d. overlaps fw ?pp d \<and> fwhm_ok config (psf_sigma fw d)) selectDataList"
  from assms obtain acc where
    "fst (select_loop fw ?pp selectDataList ([], [], []) lg) = Inr acc"
    by (auto simp: runDataRef_fst split: sum.splits)
  then have ok: "\<forall>d \<in> set selectDataList. raised_by fw ?pp d = None"
    using select_loop_Inr [of fw ?pp selectDataList "[]" "[]" "[]" lg] by blast
  from runDataRef_ok [OF ok, of config True lg] assms
  have r: "r = \<lparr>dataRefList = Some (map dataRef ?sel),
                exposureInfoList = map (exposure_info fw) ?sel\<rparr>"
    by simp
  have "subseq ?sel selectDataList" by simp
  moreover have "map (dataId_of fw) (map dataRef ?sel) = map info_dataId (map (exposure_info fw) ?sel)"
    by (simp add: exposure_info_def)
  ultimately show ?thesis
    using r runDataRef_ok [OF ok, of config False lg] by (intro exI [of _ ?sel]) simp
qed

section \<open>Properties of the pipeline driver\<close>

lemma bind_return [simp]: "bind_io (return_io a) f = f a"
  by (rule ext) (simp add: bind_io_def return_io_def)

lemma bind_raise [simp]: "bind_io (raise_io e) f = raise_io e"
  by (rule ext) (simp add: bind_io_def raise_io_def)

lemma bind_log [simp]:
  "bind_io (log_io entry) f w = f () (w\<lparr>ap_log := ap_log w @ [entry]\<rparr>)"
  by (simp add: bind_io_def log_io_def)

lemma bind_exists [simp]: "bind_io (exists_io p) f w = f (os_path_exists w p) w"
  by (simp add: bind_io_def exists_io_def)

lemma bind_isdir [simp]: "bind_io (isdir_io p) f w = f (os_path_isdir w p) w"
  by (simp add: bind_io_def isdir_io_def)

lemma bind_then_return: "bind_io m (\<lambda>a. return_io a) = m"
  by (rule ext) (auto simp: bind_io_def return_io_def split: prod.splits sum.splits)

lemma bind_assoc: "bind_io (bind_io m f) g = bind_io m (\<lambda>a. bind_io (f a) g)"
  by (rule ext) (auto simp: bind_io_def split: prod.splits sum.splits)

text \<open>
  Claim C4. When its checkpoint exists (\<open>repo/registry.sqlite3\<close> for \<open>doIngest\<close>, the
  directory \<open>processed_repo/0<visit>\<close> for \<open>doProcessCcd\<close>, \<open>diffim_repo/deepDiff/v<visit>\<close>
  for \<open>doDiffIm\<close>), a stage logs one warning and returns \<open>None\<close>; the world is otherwise
  unchanged, whatever the framework's tasks would do.
\<close>

theorem stages_skip_when_done:
  "(os_path_exists w (os_path_join repo ''registry.sqlite3'') \<longrightarrow>
      doIngest x repo refcats datafiles w =
        (Inr None,
         w\<lparr>ap_log := ap_log w @ [LogWarn ''Raw images were previously ingested, skipping...'']\<rparr>))
   \<and> (dataId_dict dataId ''visit'' = Some visit \<and>
      os_path_isdir w (os_path_join processed_repo (''0'' @ visit)) \<longrightarrow>
      doProcessCcd x repo calib_repo processed_repo dataId w =
        (Inr None,
         w\<lparr>ap_log := ap_log w @
            [LogWarn (''ProcessCcd has already been run for visit '' @ visit
                      @ '', skipping...'')]\<rparr>))
   \<and> (dataId_dict dataId ''visit'' = Some visit \<and>
      os_path_exists w (os_path_join (os_path_join diffim_repo ''deepDiff'') (''v'' @ visit)) \<longrightarrow>
      doDiffIm x processed_repo dataId template diffim_repo w =
        (Inr None,
         w\<lparr>ap_log := ap_log w @
            [LogWarn (''DiffIm has already been run for visit '' @ visit
                      @ '', skipping...'')]\<rparr>))"
  by (simp add: doIngest_def doProcessCcd_def doDiffIm_def return_io_def)

lemma map_of_rev_None: "map_of (rev ps) k = None \<longleftrightarrow> k \<notin> fst ` set ps"
  by (simp add: map_of_eq_None_iff)

text \<open>
  Claim C8. When no key-value pair of the data id has the key \<open>visit\<close>, \<open>doProcessCcd\<close>
  and \<open>doDiffIm\<close> raise \<open>RuntimeError\<close> and leave the world as it was: no directory is
  made, no task is run, nothing is logged.
\<close>

theorem no_visit_raises:
  assumes "''visit'' \<notin> fst ` set (dataId_pairs dataId)"
  shows "doProcessCcd x repo calib_repo processed_repo dataId w = (Inl RuntimeError, w) \<and>
         doDiffIm x processed_repo dataId template diffim_repo w = (Inl RuntimeError, w)"
proof -
  have "dataId_dict dataId ''visit'' = None"
    using assms by (simp add: dataId_dict_def map_of_rev_None)
  then show ?thesis by (simp add: doProcessCcd_def doDiffIm_def raise_io_def)
qed

lemma flatBiasIngest_integrity:
  assumes "calibs_parse_args x
             ([repo, ''--calib'', calib_repo, ''--mode'', ''link'', ''--validity'', ''999'']
              @ calibdatafiles)
             (w\<lparr>ap_log := ap_log w @ [LogInfo ''Ingesting flats and biases...'']\<rparr>)
           = (Inr parsedCmd, w1)"
    and "calibs_run x parsedCmd w1 = (Inl IntegrityError, w2)"
  shows "flatBiasIngest x repo calib_repo calibdatafiles w =
           (Inr None,
            w2\<lparr>ap_log := ap_log w2 @
               [LogError ''sqlite3.IntegrityError: '' (Some IntegrityError),
                LogError ''(sqlite3 doesn't think all the calibration files are unique)'' None]\<rparr>)"
  using assms by (simp add: flatBiasIngest_def bind_io_def log_io_def return_io_def)

lemma doIngestCalibs_flatBias_None:
  assumes "flatBias_entry w0 calib_repo w"
    and "flatBiasIngest x repo calib_repo calibdatafiles w = (Inr None, w')"
  shows "doIngestCalibs x repo calib_repo calibdatafiles defectfiles w0 =
         defectIngest x repo calib_repo defectfiles w'"
proof -
  have tail: "bind_io (bind_io (defectIngest x repo calib_repo defectfiles)
                 (\<lambda>defect_metadata. return_io (None, defect_metadata)))
               (\<lambda>(flatBias_metadata, defect_metadata).
                  case flatBias_metadata of
                    Some fb \<Rightarrow>
                      (case defect_metadata of
                         Some d \<Rightarrow> return_io (Some (combine x fb d))
                       | None \<Rightarrow> return_io (Some fb))
                  | None \<Rightarrow> return_io defect_metadata) =
              defectIngest x repo calib_repo defectfiles"
    by (simp add: bind_assoc bind_then_return)
  show ?thesis
  proof (cases "os_path_isdir w0 calib_repo")
    case True
    with assms(1) have "w = w0" "\<not> os_path_exists w0 (os_path_join calib_repo ''cpBIAS'')"
      by (simp_all add: flatBias_entry_def)
    then show ?thesis
      using True assms(2) tail
      by (simp add: doIngestCalibs_def bind_assoc) (simp add: bind_io_def)
  next
    case False
    with assms(1) have "os_mkdir calib_repo w0 = (Inr (), w)"
      by (simp add: flatBias_entry_def)
    then show ?thesis
      using False assms(2) tail
      by (simp add: doIngestCalibs_def bind_assoc) (simp add: bind_io_def)
  qed
qed

text \<open>
  Claim C5. When the calibration ingest task raises \<open>sqlite3.IntegrityError\<close>,
  \<open>flatBiasIngest\<close> logs two errors and returns \<open>None\<close>; \<open>doIngestCalibs\<close> then goes
  on to \<open>defectIngest\<close> and returns exactly what that returns.
\<close>

theorem integrity_error_caught:
  assumes "flatBias_entry w0 calib_repo w"
    and "calibs_parse_args x
             ([repo, ''--calib'', calib_repo, ''--mode'', ''link'', ''--validity'', ''999'']
              @ calibdatafiles)
             (w\<lparr>ap_log := ap_log w @ [LogInfo ''Ingesting flats and biases...'']\<rparr>)
           = (Inr parsedCmd, w1)"
    and "calibs_run x parsedCmd w1 = (Inl IntegrityError, w2)"
  shows "flatBiasIngest x repo calib_repo calibdatafiles w =
           (Inr None,
            w2\<lparr>ap_log := ap_log w2 @
               [LogError ''sqlite3.IntegrityError: '' (Some IntegrityError),
                LogError ''(sqlite3 doesn't think all the calibration files are unique)'' None]\<rparr>)
         \<and> doIngestCalibs x repo calib_repo calibdatafiles defectfiles w0 =
           defectIngest x repo calib_repo defectfiles
             (w2\<lparr>ap_log := ap_log w2 @
               [LogError ''sqlite3.IntegrityError: '' (Some IntegrityError),
                LogError ''(sqlite3 doesn't think all the calibration files are unique)'' None]\<rparr>)"
  using flatBiasIngest_integrity [OF assms(2,3)]
    doIngestCalibs_flatBias_None [OF assms(1) flatBiasIngest_integrity [OF assms(2,3)]]
  by simp

text \<open>
  Claim C7, as the code has it. \<open>get_output_repos\<close> returns the four paths
  \<open>outputpath/ingested\<close>, \<open>outputpath/calibingested\<close>, \<open>outputpath/processed\<close> and
  \<open>outputpath/diffim\<close>, in that order, when \<open>outputpath\<close> is a directory, or when it
  does not exist and its parent is a directory, in which case it is created; otherwise
  the \<open>OSError\<close> of \<open>os.mkdir\<close> comes out.
\<close>

theorem get_output_repos_paths:
  "get_output_repos outputpath w =
     (if os_path_isdir w outputpath then (Inr (output_paths outputpath), w)
      else if outputpath \<noteq> [] \<and> node_at w (resolve (cwd w) outputpath) = None
              \<and> node_at w (butlast (resolve (cwd w) outputpath)) = Some Dir
      then (Inr (output_paths outputpath),
            w\<lparr>fs := (fs w)(resolve (cwd w) outputpath \<mapsto> Dir)\<rparr>)
      else (Inl OSError, w))"
  by (simp add: get_output_repos_def get_output_repos_in_def OUTPUT_DIRS_def INGESTED_DIR_def
      CALIBINGESTED_DIR_def PROCESSED_DIR_def DIFFIM_DIR_def py_index_def output_paths_def
      bind_io_def isdir_io_def os_mkdir_def return_io_def raise_io_def Let_def)

lemma starts_with_prefix: "starts_with s t \<longleftrightarrow> prefix s t"
  by (induction s t rule: starts_with.induct) auto

lemma py_in_sublist: "py_in s t \<longleftrightarrow> sublist s t"
  by (induction t) (auto simp: starts_with_prefix sublist_Cons_right)

text \<open>
  Claim C10. \<open>get_calibdatafiles\<close> returns the matches of \<open>*.fits\<close> and then of
  \<open>*.fz\<close> in \<open>dataset_root/calib\<close>, as \<open>glob\<close> lists them, keeping exactly those
  whose path contains none of \<open>fcw\<close>, \<open>zcw\<close> and \<open>ici\<close>.
\<close>

theorem get_calibdatafiles_exact:
  "get_calibdatafiles x w dataset_root =
     filter (\<lambda>file. \<not> sublist ''fcw'' file \<and> \<not> sublist ''zcw'' file \<and> \<not> sublist ''ici'' file)
       (glob x w (os_path_join (os_path_join dataset_root ''calib'') ''*.fits'') @
        glob x w (os_path_join (os_path_join dataset_root ''calib'') ''*.fz''))"
  by (simp add: get_calibdatafiles_def get_calibdatafiles_in_def glob_types_def MASTERCAL_DIR_def
      filestoignore_def py_in_sublist)

section \<open>The properties on the example data\<close>

subsection \<open>Image selection\<close>

lemmas demo_defs =
  demo_framework_def demo_hull_def demo_patch_def degenerate_patch_def demo_images_def
  demo_image_def default_config_def wide_config_def

lemma demo_run_default:
  "runDataRef demo_framework default_config demo_patch demo_images True [] =
     (Inr \<lparr>dataRefList = Some [(1, 1)],
           exposureInfoList =
             [\<lparr>info_dataId = 1, info_coordList = [(5, 0), (15, 0), (15, 10), (5, 10)]\<rparr>]\<rparr>,
      [DebugWcsError 4 PexDomainError, DebugNoPolygon 5, InfoSelected 1 sigma_to_fwhm])"
  using sigma_to_fwhm_bounds
  by (simp add: runDataRef_def demo_defs Let_def)

lemma demo_run_wide:
  "fst (runDataRef demo_framework wide_config demo_patch demo_images True []) =
     Inr \<lparr>dataRefList = Some [(1, 1), (2, 3)],
          exposureInfoList =
            [\<lparr>info_dataId = 1, info_coordList = [(5, 0), (15, 0), (15, 10), (5, 10)]\<rparr>,
             \<lparr>info_dataId = 2, info_coordList = [(5, 0), (15, 0), (15, 10), (5, 10)]\<rparr>]\<rparr>"
  using sigma_to_fwhm_bounds
  by (simp add: runDataRef_def demo_defs Let_def)

text \<open>
  A patch whose four corners coincide has no convex hull: the first image that has a
  footprint polygon then makes \<open>patchPoly.intersects\<close> fail, and the call raises
  instead of selecting.
\<close>

theorem runDataRef_degenerate_patch_counterexample:
  "fst (runDataRef demo_framework default_config degenerate_patch demo_images True []) =
     Inl AttributeError"
  by (simp add: runDataRef_def demo_defs Let_def)

text \<open>
  The call is not without effect: it writes to the task's log.
\<close>

theorem runDataRef_logs_counterexample:
  "snd (runDataRef demo_framework default_config demo_patch demo_images True []) \<noteq> []"
  by (simp add: demo_run_default)


text \<open>
  The selection on the example images: image 1 alone is selected under the default
  bounds.
\<close>

theorem runDataRef_selects_witness:
  "convexHull demo_framework (map (getVector demo_framework) demo_patch) = Some (0, 10) \<and>
   list_all (\<lambda>data. \<not> wcs_raises_uncaught demo_framework data) demo_images \<and>
   filter (selected_image demo_framework default_config (0, 10)) demo_images =
     [demo_image 1 1 (Inr 5) (10, 10)] \<and>
   fst (runDataRef demo_framework default_config demo_patch demo_images True []) =
     Inr \<lparr>dataRefList =
            Some (map dataRef
              (filter (selected_image demo_framework default_config (0, 10)) demo_images)),
          exposureInfoList =
            map (exposure_info demo_framework)
              (filter (selected_image demo_framework default_config (0, 10)) demo_images)\<rparr>"
proof -
  have hull: "convexHull demo_framework (map (getVector demo_framework) demo_patch) = Some (0, 10)"
    by (simp add: demo_defs)
  have wcs: "\<forall>data \<in> set demo_images. \<not> wcs_raises_uncaught demo_framework data"
    by (simp add: wcs_raises_uncaught_def image_corners_def demo_defs)
  have sel: "filter (selected_image demo_framework default_config (0, 10)) demo_images =
     [demo_image 1 1 (Inr 5) (10, 10)]"
    using sigma_to_fwhm_bounds
    by (simp add: selected_image_iff overlaps_def footprint_polygon_def image_corners_def
        fwhm_ok_def psf_sigma_def demo_defs)
  from runDataRef_selects [OF hull wcs, of default_config True "[]"] hull wcs sel
  show ?thesis by (simp add: list_all_iff)
qed

text \<open>
  The default bounds lie within the wide ones; image 2, of sigma 3, is selected under
  the wide bounds only.
\<close>

theorem runDataRef_monotone_witness:
  "{minPsfFwhm default_config .. maxPsfFwhm default_config} \<subseteq>
     {minPsfFwhm wide_config .. maxPsfFwhm wide_config} \<and>
   (case (fst (runDataRef demo_framework default_config demo_patch demo_images True []),
          fst (runDataRef demo_framework wide_config demo_patch demo_images True [])) of
      (Inr r1, Inr r2) \<Rightarrow>
        set (exposureInfoList r1) \<subseteq> set (exposureInfoList r2) \<and>
        rel_option (\<lambda>refs1 refs2. set refs1 \<subseteq> set refs2) (dataRefList r1) (dataRefList r2)
    | (Inl e1, Inl e2) \<Rightarrow> e1 = e2
    | _ \<Rightarrow> False) \<and>
   dataRefList (projr (fst (runDataRef demo_framework default_config demo_patch demo_images True [])))
     = Some [(1, 1)] \<and>
   dataRefList (projr (fst (runDataRef demo_framework wide_config demo_patch demo_images True [])))
     = Some [(1, 1), (2, 3)]"
proof -
  have sub: "{minPsfFwhm default_config .. maxPsfFwhm default_config} \<subseteq>
     {minPsfFwhm wide_config .. maxPsfFwhm wide_config}"
    by (simp add: default_config_def wide_config_def)
  from runDataRef_monotone [OF sub, of demo_framework demo_patch demo_images True "[]"] sub
  show ?thesis by (simp add: demo_run_default demo_run_wide)
qed

text \<open>
  Image 4, whose WCS raises \<open>DomainError\<close>, can be taken out of the list without
  changing the result.
\<close>

theorem runDataRef_deselects_witness:
  "deselected demo_framework
     (convexHull demo_framework (map (getVector demo_framework) demo_patch))
     (demo_image 4 1 (Inl PexDomainError) (10, 10)) \<and>
   fst (runDataRef demo_framework default_config demo_patch
          ([demo_image 1 1 (Inr 5) (10, 10), demo_image 2 3 (Inr 5) (10, 10)]
           @ demo_image 4 1 (Inl PexDomainError) (10, 10) # [demo_image 5 1 (Inr 5) (0, 0)])
          True []) =
   fst (runDataRef demo_framework default_config demo_patch
          ([demo_image 1 1 (Inr 5) (10, 10), demo_image 2 3 (Inr 5) (10, 10)]
           @ [demo_image 5 1 (Inr 5) (0, 0)])
          True [])"
proof -
  have d: "deselected demo_framework
     (convexHull demo_framework (map (getVector demo_framework) demo_patch))
     (demo_image 4 1 (Inl PexDomainError) (10, 10))"
    by (simp add: deselected_def image_corners_def demo_defs)
  from runDataRef_deselects [OF d] d show ?thesis by blast
qed

text \<open>
  The two returned lists on the example images, with and without \<open>makeDataRefList\<close>.
\<close>

theorem runDataRef_aligned_witness:
  "fst (runDataRef demo_framework default_config demo_patch demo_images True []) =
     Inr \<lparr>dataRefList = Some [(1, 1)],
          exposureInfoList =
            [\<lparr>info_dataId = 1, info_coordList = [(5, 0), (15, 0), (15, 10), (5, 10)]\<rparr>]\<rparr> \<and>
   (\<exists>sel. subseq sel demo_images \<and>
          Some [(1, 1)] = Some (map dataRef sel) \<and>
          [\<lparr>info_dataId = 1, info_coordList = [(5, 0), (15, 0), (15, 10), (5, 10)]\<rparr>] =
            map (exposure_info demo_framework) sel \<and>
          fst (runDataRef demo_framework default_config demo_patch demo_images False []) =
            Inr \<lparr>dataRefList = None,
                 exposureInfoList =
                   [\<lparr>info_dataId = 1, info_coordList = [(5, 0), (15, 0), (15, 10), (5, 10)]\<rparr>]\<rparr>)"
proof -
  have r: "fst (runDataRef demo_framework default_config demo_patch demo_images True []) =
     Inr \<lparr>dataRefList = Some [(1, 1)],
          exposureInfoList =
            [\<lparr>info_dataId = 1, info_coordList = [(5, 0), (15, 0), (15, 10), (5, 10)]\<rparr>]\<rparr>"
    by (simp add: demo_run_default)
  from runDataRef_aligned [OF r] r show ?thesis by auto
qed

subsection \<open>The pipeline driver\<close>

lemmas path_defs =
  os_path_join_def os_path_exists_def os_path_isdir_def node_at_def resolve_def
  resolve_step_def

lemma bind_mkdir:
  "bind_io (os_mkdir p) f w =
     (case os_mkdir p w of (Inl e, w') \<Rightarrow> (Inl e, w') | (Inr u, w') \<Rightarrow> f u w')"
  by (simp add: bind_io_def)

text \<open>
  The three stages in the example world, where every checkpoint of visit 410985
  exists.
\<close>

theorem stages_skip_when_done_witness:
  "os_path_exists demo_world (os_path_join ''out/ingested'' ''registry.sqlite3'') \<and>
   doIngest demo_ext ''out/ingested'' ''refcats'' [''raw/a.fits''] demo_world =
     (Inr None,
      demo_world\<lparr>ap_log := [LogWarn ''Raw images were previously ingested, skipping...'']\<rparr>) \<and>
   dataId_dict ''visit=410985 ccdnum=25'' ''visit'' = Some ''410985'' \<and>
   os_path_isdir demo_world (os_path_join ''out/processed'' (''0'' @ ''410985'')) \<and>
   doProcessCcd demo_ext ''out/ingested'' ''out/calibingested'' ''out/processed''
       ''visit=410985 ccdnum=25'' demo_world =
     (Inr None,
      demo_world\<lparr>ap_log :=
        [LogWarn ''ProcessCcd has already been run for visit 410985, skipping...'']\<rparr>) \<and>
   os_path_exists demo_world
     (os_path_join (os_path_join ''out/diffim'' ''deepDiff'') (''v'' @ ''410985'')) \<and>
   doDiffIm demo_ext ''out/processed'' ''visit=410985 ccdnum=25'' ''410929'' ''out/diffim''
       demo_world =
     (Inr None,
      demo_world\<lparr>ap_log :=
        [LogWarn ''DiffIm has already been run for visit 410985, skipping...'']\<rparr>)"
proof -
  have e1: "os_path_exists demo_world (os_path_join ''out/ingested'' ''registry.sqlite3'')"
    by (simp add: path_defs demo_world_def)
  have v: "dataId_dict ''visit=410985 ccdnum=25'' ''visit'' = Some ''410985''"
    by (simp add: dataId_dict_def dataId_pairs_def dataId_items_def)
  have e2: "os_path_isdir demo_world (os_path_join ''out/processed'' (''0'' @ ''410985''))"
    by (simp add: path_defs demo_world_def)
  have e3: "os_path_exists demo_world
     (os_path_join (os_path_join ''out/diffim'' ''deepDiff'') (''v'' @ ''410985''))"
    by (simp add: path_defs demo_world_def)
  have l: "ap_log demo_world = []"
    by (simp add: demo_world_def)
  from stages_skip_when_done [where w = demo_world and repo = "''out/ingested''"
      and x = demo_ext and refcats = "''refcats''" and datafiles = "[''raw/a.fits'']"
      and dataId = "''visit=410985 ccdnum=25''" and visit = "''410985''"
      and processed_repo = "''out/processed''" and calib_repo = "''out/calibingested''"
      and diffim_repo = "''out/diffim''" and template = "''410929''"]
    e1 v e2 e3 l
  show ?thesis by simp
qed

text \<open>
  A data id that names a CCD and no visit.
\<close>

theorem no_visit_raises_witness:
  "''visit'' \<notin> fst ` set (dataId_pairs ''ccdnum=25'') \<and>
   doProcessCcd demo_ext ''out/ingested'' ''out/calibingested'' ''out/processed'' ''ccdnum=25''
       demo_world = (Inl RuntimeError, demo_world) \<and>
   doDiffIm demo_ext ''out/processed'' ''ccdnum=25'' ''410929'' ''out/diffim'' demo_world =
     (Inl RuntimeError, demo_world)"
proof -
  have h: "''visit'' \<notin> fst ` set (dataId_pairs ''ccdnum=25'')"
    by (simp add: dataId_pairs_def dataId_items_def)
  from no_visit_raises [OF h] h show ?thesis by blast
qed

text \<open>
  \<open>os.mkdir\<close> makes one directory: under a directory that does not exist,
  \<open>get_output_repos\<close> raises and returns no paths.
\<close>

theorem get_output_repos_missing_parent_counterexample:
  "get_output_repos ''results/run1'' demo_world = (Inl OSError, demo_world)"
  by (simp add: get_output_repos_def get_output_repos_in_def bind_mkdir os_mkdir_def
      path_defs demo_world_def Let_def)

lemma get_output_repos_demo:
  "get_output_repos ''out'' demo_world =
     (Inr (''out/ingested'', ''out/calibingested'', ''out/processed'', ''out/diffim''),
      demo_world)"
  by (simp add: get_output_repos_def get_output_repos_in_def py_index_def OUTPUT_DIRS_def
      INGESTED_DIR_def CALIBINGESTED_DIR_def PROCESSED_DIR_def DIFFIM_DIR_def
      path_defs demo_world_def return_io_def Let_def)


lemma demo_flatBias_entry:
  "flatBias_entry demo_world ''out/calibingested'' demo_world"
  by (simp add: flatBias_entry_def path_defs demo_world_def)

lemma demo_defectIngest:
  "defectIngest demo_ext ''out/ingested'' ''out/calibingested'' [''calib/defects_2014-12-05'']
     (demo_world\<lparr>ap_log :=
        [LogInfo ''Ingesting flats and biases...'',
         LogError ''sqlite3.IntegrityError: '' (Some IntegrityError),
         LogError ''(sqlite3 doesn't think all the calibration files are unique)'' None]\<rparr>) =
   (Inr (Some ''defects''),
    demo_world\<lparr>fs := (fs demo_world)([''out'', ''calibingested'', ''defects''] \<mapsto> Dir),
      ap_log :=
        [LogInfo ''Ingesting flats and biases...'',
         LogError ''sqlite3.IntegrityError: '' (Some IntegrityError),
         LogError ''(sqlite3 doesn't think all the calibration files are unique)'' None,
         LogInfo ''Ingesting defects...'']\<rparr>)"
  by (simp add: defectIngest_def finally_io_def bind_io_def os_chdir_def os_mkdir_def
      log_io_def py_index_def return_io_def raise_io_def path_defs demo_world_def
      demo_ext_def Let_def)

text \<open>
  Calibration ingestion in the example world: the flats and biases raise
  \<open>sqlite3.IntegrityError\<close>, the defects are ingested, and their metadata is what
  \<open>doIngestCalibs\<close> returns.
\<close>

theorem integrity_error_caught_witness:
  "flatBias_entry demo_world ''out/calibingested'' demo_world \<and>
   calibs_run demo_ext
     [''out/ingested'', ''--calib'', ''out/calibingested'', ''--mode'', ''link'',
      ''--validity'', ''999'', ''calib/flat.fits'']
     (demo_world\<lparr>ap_log := [LogInfo ''Ingesting flats and biases...'']\<rparr>) =
     (Inl IntegrityError, demo_world\<lparr>ap_log := [LogInfo ''Ingesting flats and biases...'']\<rparr>) \<and>
   flatBiasIngest demo_ext ''out/ingested'' ''out/calibingested'' [''calib/flat.fits'']
       demo_world =
     (Inr None,
      demo_world\<lparr>ap_log :=
        [LogInfo ''Ingesting flats and biases...'',
         LogError ''sqlite3.IntegrityError: '' (Some IntegrityError),
         LogError ''(sqlite3 doesn't think all the calibration files are unique)'' None]\<rparr>) \<and>
   doIngestCalibs demo_ext ''out/ingested'' ''out/calibingested'' [''calib/flat.fits'']
       [''calib/defects_2014-12-05''] demo_world =
     (Inr (Some ''defects''),
      demo_world\<lparr>fs := (fs demo_world)([''out'', ''calibingested'', ''defects''] \<mapsto> Dir),
        ap_log :=
          [LogInfo ''Ingesting flats and biases...'',
           LogError ''sqlite3.IntegrityError: '' (Some IntegrityError),
           LogError ''(sqlite3 doesn't think all the calibration files are unique)'' None,
           LogInfo ''Ingesting defects...'']\<rparr>)"
proof -
  let ?w1 = "demo_world\<lparr>ap_log := [LogInfo ''Ingesting flats and biases...'']\<rparr>"
  let ?args = "[''out/ingested'', ''--calib'', ''out/calibingested'', ''--mode'', ''link'',
      ''--validity'', ''999'', ''calib/flat.fits'']"
  have l: "ap_log demo_world = []"
    by (simp add: demo_world_def)
  have p: "calibs_parse_args demo_ext
      ([''out/ingested'', ''--calib'', ''out/calibingested'', ''--mode'', ''link'',
        ''--validity'', ''999''] @ [''calib/flat.fits''])
      (demo_world\<lparr>ap_log := ap_log demo_world @ [LogInfo ''Ingesting flats and biases...'']\<rparr>) =
      (Inr ?args, ?w1)"
    by (simp add: demo_ext_def return_io_def l)
  have r: "calibs_run demo_ext ?args ?w1 = (Inl IntegrityError, ?w1)"
    by (simp add: demo_ext_def raise_io_def)
  from integrity_error_caught [OF demo_flatBias_entry p r,
      of "[''calib/defects_2014-12-05'']"] demo_flatBias_entry r
  show ?thesis by (simp add: demo_defectIngest l)
qed

end
